theory Spec2Isabelle
  imports Complex_Main "HOL-Library.Sublist"
begin

section \<open>Text\<close>

text \<open>
  A Python \<open>str\<close> is a sequence of Unicode code points, so a text is a list of
  natural numbers, one per code point.  The Arabic entries of the gluten lexicon and the
  Arabic labels of the response are written by their code points; \<open>u\<close> turns an ASCII
  literal into a text.
\<close>

type_synonym ustr = "nat list"

definition u :: "string \<Rightarrow> ustr" where
  "u s = map of_char s"

text \<open>
  \<open>str.split()\<close> without argument splits at runs of white space and returns no empty
  token.  \<open>isspace\<close> is the white space of \<open>str.isspace\<close>.
\<close>

definition isspace :: "nat \<Rightarrow> bool" where
  "isspace c =
     ((9 \<le> c \<and> c \<le> 13) \<or> (28 \<le> c \<and> c \<le> 32) \<or> c = 133 \<or> c = 160 \<or> c = 5760
      \<or> (8192 \<le> c \<and> c \<le> 8202) \<or> c = 8232 \<or> c = 8233 \<or> c = 8239 \<or> c = 8287
      \<or> c = 12288)"

fun split_from :: "ustr \<Rightarrow> ustr \<Rightarrow> ustr list" where
  "split_from cur [] = (if cur = [] then [] else [cur])"
| "split_from cur (c # cs) =
     (if isspace c then (if cur = [] then split_from [] cs else cur # split_from [] cs)
      else split_from (cur @ [c]) cs)"

definition split :: "ustr \<Rightarrow> ustr list" where
  "split s = split_from [] s"

text \<open>
  \<open>str.lower()\<close>, which only \<open>_generate_alternatives\<close> calls, is modelled on the ASCII
  letters, the only cased letters of the catalog; every other code point is taken as it is
  (the Arabic block has no case).
\<close>

definition lower_cp :: "nat \<Rightarrow> nat" where
  "lower_cp c = (if 65 \<le> c \<and> c \<le> 90 then c + 32 else c)"

definition lower :: "ustr \<Rightarrow> ustr" where
  "lower s = map lower_cp s"

text \<open>\<open>sub in s\<close> on two \<open>str\<close>: \<open>sub\<close> occurs in \<open>s\<close> as a contiguous run.\<close>

fun startswith :: "ustr \<Rightarrow> ustr \<Rightarrow> bool" where
  "startswith s [] = True"
| "startswith [] (p # ps) = False"
| "startswith (c # cs) (p # ps) = (c = p \<and> startswith cs ps)"

fun str_in :: "ustr \<Rightarrow> ustr \<Rightarrow> bool" where
  "str_in sub [] = (sub = [])"
| "str_in sub (c # cs) = (startswith (c # cs) sub \<or> str_in sub cs)"

section \<open>Exceptions and outcomes\<close>

datatype py_error =
    KeyError ustr
  | AttributeError
  | ReError
  | FileNotFoundError
  | EmptyDataError
  | ParserError
  | OSError

text \<open>A call returns a value or raises.\<close>

datatype 'a outcome = Returns 'a | Raises py_error

fun and_then :: "'a outcome \<Rightarrow> ('a \<Rightarrow> 'b outcome) \<Rightarrow> 'b outcome" where
  "and_then (Returns x) f = f x"
| "and_then (Raises e) f = Raises e"


section \<open>Tables\<close>

text \<open>
  A row of a frame, as \<open>pd.read_csv\<close> gives it, carries the cells of the two columns the
  engine reads, \<open>name\<close> and \<open>ingredients\<close>, and its other cells (the brand, the
  declared \<open>gluten_status\<close>) by column label.  A cell of the two columns is a text, or
  \<open>None\<close> when the cell is missing (\<open>NaN\<close>).  A frame knows its column labels:
  \<open>pd.DataFrame()\<close> has none, and \<open>df[label]\<close> raises \<open>KeyError\<close> for a label the frame
  does not have.  The columns of texts are the \<open>object\<close> columns of pandas.
\<close>

datatype cell = CStr ustr | CBool bool | CNaN

record csv_row =
  name_cell :: "ustr option"
  ingredients_cell :: "ustr option"
  other_cells :: "(ustr \<times> cell) list"

record dataframe =
  columns :: "ustr list"
  rows :: "csv_row list"

definition DataFrame :: dataframe where
  "DataFrame = \<lparr>columns = [], rows = []\<rparr>"

definition getitem_name :: "dataframe \<Rightarrow> ustr option list outcome" where
  "getitem_name df =
     (if u ''name'' \<in> set (columns df) then Returns (map name_cell (rows df))
      else Raises (KeyError (u ''name'')))"

definition getitem_ingredients :: "dataframe \<Rightarrow> ustr option list outcome" where
  "getitem_ingredients df =
     (if u ''ingredients'' \<in> set (columns df) then Returns (map ingredients_cell (rows df))
      else Raises (KeyError (u ''ingredients'')))"

datatype DataSource = RECIPE_DATABASE | PRODUCT_CATALOG | NUTRITIONAL_DATABASE

text \<open>
  What the body of the two loops reads of a matched row: its name, a text, and
  \<open>str(item['ingredients'])\<close>, which is \<open>nan\<close> for a missing cell.
\<close>

record row =
  name :: ustr
  ingredients :: ustr
  extras :: "(ustr \<times> cell) list"

definition py_str :: "ustr option \<Rightarrow> ustr" where
  "py_str c = (case c of Some s \<Rightarrow> s | None \<Rightarrow> u ''nan'')"

definition as_row :: "csv_row \<Rightarrow> row" where
  "as_row item =
     \<lparr>name = py_str (name_cell item), ingredients = py_str (ingredients_cell item),
      extras = other_cells item\<rparr>"


section \<open>\<open>Series.str.contains(query, case=False)\<close>\<close>

text \<open>
  \<open>str.contains\<close> takes its pattern as a regular expression (\<open>regex=True\<close> is the
  default), compiled with \<open>re.IGNORECASE\<close>, and keeps a cell when \<open>search\<close> finds a
  match anywhere in it.  The library \<open>re\<close> is a parameter of the model: a \<open>regex\<close> gives,
  for a pattern, the error that \<open>re.compile(pattern, re.IGNORECASE)\<close> raises or the test
  \<open>search(x) is not None\<close> of the compiled pattern on a text.
\<close>

type_synonym regex = "ustr \<Rightarrow> py_error + (ustr \<Rightarrow> bool)"

text \<open>
  The accessor \<open>.str\<close> is there on a column of texts only.  A column that has rows and
  whose cells are all missing is read as a column of floats, and \<open>.str\<close> raises
  \<open>AttributeError\<close> on it.
\<close>

definition object_column :: "ustr option list \<Rightarrow> bool" where
  "object_column series = (series = [] \<or> list_ex (\<lambda>c. c \<noteq> None) series)"

definition str_accessor :: "ustr option list \<Rightarrow> ustr option list outcome" where
  "str_accessor series =
     (if object_column series then Returns series else Raises AttributeError)"

text \<open>The mask of a column: a truth value for a text, \<open>NaN\<close> (\<open>None\<close>) for a missing cell.\<close>

definition str_contains :: "regex \<Rightarrow> ustr option list \<Rightarrow> ustr \<Rightarrow> bool option list outcome" where
  "str_contains re series query =
     and_then (str_accessor series) (\<lambda>texts.
       case re query of
         Inl e \<Rightarrow> Raises e
       | Inr found \<Rightarrow> Returns (map (map_option found) texts))"

text \<open>
  \<open>a | b\<close> on two masks, cell by cell: a \<open>NaN\<close> on the left gives \<open>False\<close> whatever the
  right is, and a \<open>NaN\<close> on the right counts as \<open>False\<close>.
\<close>

fun logical_or :: "bool option \<Rightarrow> bool option \<Rightarrow> bool" where
  "logical_or None b = False"
| "logical_or (Some a) None = a"
| "logical_or (Some a) (Some b) = (a \<or> b)"

text \<open>
  The characters that are special in a pattern; a pattern without them is a sequence of
  ordinary characters.
\<close>

definition re_special :: "nat \<Rightarrow> bool" where
  "re_special c = (c \<in> set [46, 92, 91, 123, 40, 41, 42, 43, 63, 94, 36, 124])"

section \<open>The engine\<close>

record GlutenAnalysisResult =
  item_name :: ustr
  contains_gluten :: bool
  gluten_sources :: "ustr list"
  alternative_suggestions :: "ustr list"
  confidence_score :: real
  nutritional_details :: "(ustr \<times> ustr) list"

type_synonym config = "(ustr \<times> ustr) list"

record RAGSystem =
  config :: config
  data_sources :: "DataSource \<Rightarrow> dataframe"
  gluten_ingredients :: "ustr set"

subsection \<open>Loading\<close>

text \<open>
  \<open>read_csv\<close> stands for \<open>pd.read_csv\<close> on the files of the machine: a frame, or the
  exception it raises.  Each loader catches every exception, of the lookup of the path
  in the configuration as of the reading, and returns \<open>pd.DataFrame()\<close> then.
\<close>

definition load_table :: "(ustr \<Rightarrow> py_error + dataframe) \<Rightarrow> config \<Rightarrow> ustr \<Rightarrow> dataframe" where
  "load_table read_csv cfg key =
     (case map_of cfg key of
        None \<Rightarrow> DataFrame
      | Some path \<Rightarrow> (case read_csv path of Inl e \<Rightarrow> DataFrame | Inr df \<Rightarrow> df))"

definition load_recipe_database :: "(ustr \<Rightarrow> py_error + dataframe) \<Rightarrow> config \<Rightarrow> dataframe" where
  "load_recipe_database read_csv cfg = load_table read_csv cfg (u ''recipe_database_path'')"

definition load_product_catalog :: "(ustr \<Rightarrow> py_error + dataframe) \<Rightarrow> config \<Rightarrow> dataframe" where
  "load_product_catalog read_csv cfg = load_table read_csv cfg (u ''product_catalog_path'')"

definition load_nutritional_database :: "(ustr \<Rightarrow> py_error + dataframe) \<Rightarrow> config \<Rightarrow> dataframe" where
  "load_nutritional_database read_csv cfg =
     load_table read_csv cfg (u ''nutritional_database_path'')"

definition load_gluten_ingredients :: "ustr set" where
  "load_gluten_ingredients =
     {u ''wheat'', u ''barley'', u ''rye'', u ''couscous'', u ''semolina'', u ''bulgur'',
      [1601, 1585, 1610, 1603, 1577], [1602, 1605, 1581], [1588, 1593, 1610, 1585]}"

text \<open>
  The constructor: the configuration is read first and a failure there is raised; then the
  three tables are loaded and the lexicon is set.  (The embedding model it also builds is
  never consulted by the retrieval and is left out.)
\<close>

definition RAGSystem_init ::
  "(py_error + config) \<Rightarrow> (ustr \<Rightarrow> py_error + dataframe) \<Rightarrow> py_error + RAGSystem" where
  "RAGSystem_init config_file read_csv =
     (case config_file of
        Inl e \<Rightarrow> Inl e
      | Inr cfg \<Rightarrow>
          Inr \<lparr>config = cfg,
               data_sources =
                 (\<lambda>src. case src of
                    RECIPE_DATABASE \<Rightarrow> load_recipe_database read_csv cfg
                  | PRODUCT_CATALOG \<Rightarrow> load_product_catalog read_csv cfg
                  | NUTRITIONAL_DATABASE \<Rightarrow> load_nutritional_database read_csv cfg),
               gluten_ingredients = load_gluten_ingredients\<rparr>)"

subsection \<open>Alternatives\<close>

definition moroccan_alternatives :: "(ustr \<times> ustr list) list" where
  "moroccan_alternatives =
     [(u ''couscous'', [u ''quinoa'', u ''rice'', u ''corn couscous'']),
      (u ''bread'', [u ''corn bread'', u ''rice bread'']),
      (u ''flour'', [u ''rice flour'', u ''corn flour''])]"

text \<open>The loop over the catalog, in the order of its entries, extending the list.\<close>

definition alternatives_from :: "(ustr \<times> ustr list) list \<Rightarrow> ustr \<Rightarrow> ustr list" where
  "alternatives_from catalog item_name' =
     foldl (\<lambda>alternatives (item, subs).
              if str_in item (lower item_name') then alternatives @ subs else alternatives)
       [] catalog"

definition generate_alternatives :: "ustr \<Rightarrow> ustr list" where
  "generate_alternatives item_name' = alternatives_from moroccan_alternatives item_name'"

subsection \<open>Retrieval\<close>

text \<open>
  The rows of a frame whose name or whose ingredients contain the query: the two column
  reads and the two \<open>str.contains\<close> in the order the expression evaluates them, then the
  rows kept by the mask, in the order of the frame.
\<close>

definition matches :: "regex \<Rightarrow> dataframe \<Rightarrow> ustr \<Rightarrow> csv_row list outcome" where
  "matches re df query =
     and_then (getitem_name df) (\<lambda>names.
     and_then (str_contains re names query) (\<lambda>in_name.
     and_then (getitem_ingredients df) (\<lambda>ingrs.
     and_then (str_contains re ingrs query) (\<lambda>in_ingredients.
       Returns (map fst (filter snd
         (zip (rows df) (map (\<lambda>(a, b). logical_or a b) (zip in_name in_ingredients)))))))))"

text \<open>
  The body of both loops of \<open>retrieve_relevant_info\<close>, the same for a recipe and for a
  product: \<open>any\<close> over the tokens of the ingredients, the tokens kept by the
  comprehension, the alternatives for the name.
\<close>

definition analyse :: "RAGSystem \<Rightarrow> row \<Rightarrow> GlutenAnalysisResult" where
  "analyse self item =
     (let contains = list_ex (\<lambda>ing. ing \<in> gluten_ingredients self) (split (ingredients item))
      in \<lparr>item_name = name item,
          contains_gluten = contains,
          gluten_sources =
            filter (\<lambda>ing. ing \<in> gluten_ingredients self) (split (ingredients item)),
          alternative_suggestions = generate_alternatives (name item),
          confidence_score = 0.8,
          nutritional_details = []\<rparr>)"

text \<open>
  The body on a row of a frame.  On a row without name, \<open>item_name.lower()\<close> in
  \<open>_generate_alternatives\<close> raises \<open>AttributeError\<close>: a float has no \<open>lower\<close>.
\<close>

definition analyse_item :: "RAGSystem \<Rightarrow> csv_row \<Rightarrow> GlutenAnalysisResult outcome" where
  "analyse_item self item =
     (case name_cell item of
        None \<Rightarrow> Raises AttributeError
      | Some n \<Rightarrow> Returns (analyse self (as_row item)))"

text \<open>One loop: the result of each matched row appended to \<open>results\<close>, in order.\<close>

fun collect ::
  "RAGSystem \<Rightarrow> GlutenAnalysisResult list \<Rightarrow> csv_row list \<Rightarrow> GlutenAnalysisResult list outcome"
where
  "collect self results [] = Returns results"
| "collect self results (item # items) =
     and_then (analyse_item self item) (\<lambda>result. collect self (results @ [result]) items)"

definition retrieve_relevant_info ::
  "regex \<Rightarrow> RAGSystem \<Rightarrow> ustr \<Rightarrow> GlutenAnalysisResult list outcome" where
  "retrieve_relevant_info re self query =
     and_then (matches re (data_sources self RECIPE_DATABASE) query) (\<lambda>recipe_matches.
     and_then (matches re (data_sources self PRODUCT_CATALOG) query) (\<lambda>product_matches.
     and_then (collect self [] recipe_matches) (\<lambda>results.
       collect self results product_matches)))"

subsection \<open>Response\<close>

definition no_information :: ustr where
  "no_information =
     [1605, 1593, 1604, 1608, 1605, 1575, 1578, 32, 1594, 1610, 1585, 32,
      1605, 1578, 1608, 1601, 1585, 1577]"

definition results_header :: ustr where
  "results_header = [1606, 1578, 1575, 1574, 1580, 32, 1575, 1604, 1576, 1581, 1579, 58, 10]"

definition label_contains :: ustr where
  "label_contains =
     [1610, 1581, 1578, 1608, 1610, 32, 1593, 1604, 1609, 32,
      1575, 1604, 1594, 1604, 1608, 1578, 1610, 1606]"

definition label_free :: ustr where
  "label_free =
     [1582, 1575, 1604, 1613, 32, 1605, 1606, 32, 1575, 1604, 1594, 1604, 1608, 1578, 1610, 1606]"

definition sources_header :: ustr where
  "sources_header =
     [32, 32, 1605, 1589, 1575, 1583, 1585, 32,
      1575, 1604, 1594, 1604, 1608, 1578, 1610, 1606, 58, 10]"

definition alternatives_header :: ustr where
  "alternatives_header =
     [32, 32, 1576, 1583, 1575, 1574, 1604, 32, 1605, 1602, 1578, 1585, 1581, 1577, 58, 10]"

text \<open>The two inner loops: one bullet line appended per element.\<close>

definition add_bullets :: "ustr \<Rightarrow> ustr list \<Rightarrow> ustr" where
  "add_bullets response xs = foldl (\<lambda>response x. response @ u ''    * '' @ x @ [10]) response xs"

text \<open>The body of the outer loop, for one result.\<close>

definition add_result :: "ustr \<Rightarrow> GlutenAnalysisResult \<Rightarrow> ustr" where
  "add_result response result =
     (let gluten_status = (if contains_gluten result then label_contains else label_free);
          response = response @ u ''- '' @ item_name result @ u '': '' @ gluten_status @ [10];
          response = (if gluten_sources result \<noteq> []
                      then add_bullets (response @ sources_header) (gluten_sources result)
                      else response);
          response = (if alternative_suggestions result \<noteq> []
                      then add_bullets (response @ alternatives_header)
                             (alternative_suggestions result)
                      else response)
      in response)"

definition generate_response :: "GlutenAnalysisResult list \<Rightarrow> ustr \<Rightarrow> ustr" where
  "generate_response retrieved_info query_language =
     (if retrieved_info = [] then no_information
      else foldl add_result results_header retrieved_info)"

section \<open>The sample data\<close>

text \<open>
  The tables and the configuration that \<open>_prepare_data_files\<close> writes when the files
  are absent.  Every row is written with its name and its ingredients, so the rows are
  given as the loops read them, and \<open>csv_row_of\<close> is the row of the frame.
\<close>

definition csv_row_of :: "row \<Rightarrow> csv_row" where
  "csv_row_of r =
     \<lparr>name_cell = Some (name r), ingredients_cell = Some (ingredients r),
      other_cells = extras r\<rparr>"

definition tagine :: row where
  "tagine = \<lparr>name = u ''Tagine'', ingredients = u ''lamb'',
              extras = [(u ''gluten_status'', CBool False)]\<rparr>"

definition couscous :: row where
  "couscous = \<lparr>name = u ''Couscous'', ingredients = u ''wheat semolina'',
                extras = [(u ''gluten_status'', CBool True)]\<rparr>"

definition harira :: row where
  "harira = \<lparr>name = u ''Harira'', ingredients = u ''flour'',
              extras = [(u ''gluten_status'', CBool True)]\<rparr>"

definition pastilla :: row where
  "pastilla = \<lparr>name = u ''Pastilla'', ingredients = u ''wheat flour'',
                extras = [(u ''gluten_status'', CBool True)]\<rparr>"

definition zaalouk :: row where
  "zaalouk = \<lparr>name = u ''Zaalouk'', ingredients = u ''eggplant'',
               extras = [(u ''gluten_status'', CBool False)]\<rparr>"

definition sample_recipes :: dataframe where
  "sample_recipes =
     \<lparr>columns = [u ''name'', u ''ingredients'', u ''gluten_status''],
      rows = map csv_row_of [tagine, couscous, harira, pastilla, zaalouk]\<rparr>"

definition sardines :: row where
  "sardines =
     \<lparr>name = u ''Sardines '' @ [224, 32, 108, 39] @ u ''huile'',
      ingredients = u ''sardines salt oil'',
      extras = [(u ''brand'', CStr (u ''Conserver'')), (u ''gluten_status'', CBool False)]\<rparr>"

definition moroccan_bread :: row where
  "moroccan_bread =
     \<lparr>name = u ''Moroccan Bread'', ingredients = u ''wheat flour'',
      extras = [(u ''brand'', CStr (u ''Local Bakery'')), (u ''gluten_status'', CBool True)]\<rparr>"

definition rice_cookies :: row where
  "rice_cookies =
     \<lparr>name = u ''Rice Cookies'', ingredients = u ''rice flour sugar'',
      extras = [(u ''brand'', CStr (u ''Meknes Sweets'')), (u ''gluten_status'', CBool False)]\<rparr>"

definition sample_products :: dataframe where
  "sample_products =
     \<lparr>columns = [u ''name'', u ''ingredients'', u ''brand'', u ''gluten_status''],
      rows = map csv_row_of [sardines, moroccan_bread, rice_cookies]\<rparr>"

definition sample_config :: config where
  "sample_config =
     [(u ''recipe_database_path'', u ''data/moroccan_recipes.csv''),
      (u ''product_catalog_path'', u ''data/moroccan_products.csv''),
      (u ''nutritional_database_path'', u ''data/nutritional_ref.csv''),
      (u ''embedding_model'', u ''bert-base-multilingual-cased''),
      (u ''translation_model'', u ''bert-base-multilingual-cased'')]"

text \<open>
  The nutritional reference has other columns and no retrieval reads it: only its labels
  are kept here.
\<close>

definition nutritional_ref :: dataframe where
  "nutritional_ref =
     \<lparr>columns = [u ''ingredient'', u ''gluten_content'', u ''alternative''], rows = []\<rparr>"

text \<open>The files as they are after the first start: every table reads.\<close>

definition sample_files :: "ustr \<Rightarrow> py_error + dataframe" where
  "sample_files path =
     (if path = u ''data/moroccan_recipes.csv'' then Inr sample_recipes
      else if path = u ''data/moroccan_products.csv'' then Inr sample_products
      else if path = u ''data/nutritional_ref.csv'' then Inr nutritional_ref
      else Inl FileNotFoundError)"

text \<open>
  The same files but for the recipes: \<open>data/moroccan_recipes.csv\<close> is there and is
  empty, so it is not written again and \<open>pd.read_csv\<close> raises \<open>EmptyDataError\<close> on it.
\<close>

definition files_with_empty_recipes :: "ustr \<Rightarrow> py_error + dataframe" where
  "files_with_empty_recipes path =
     (if path = u ''data/moroccan_recipes.csv'' then Inl EmptyDataError else sample_files path)"

definition sample_system :: RAGSystem where
  "sample_system =
     \<lparr>config = sample_config,
      data_sources =
        (\<lambda>src. case src of
           RECIPE_DATABASE \<Rightarrow> sample_recipes
         | PRODUCT_CATALOG \<Rightarrow> sample_products
         | NUTRITIONAL_DATABASE \<Rightarrow> nutritional_ref),
      gluten_ingredients = load_gluten_ingredients\<rparr>"


text \<open>
  A product table with missing cells: a row without name whose ingredients have wheat, and
  a row without ingredients.
\<close>

definition nameless :: csv_row where
  "nameless =
     \<lparr>name_cell = None, ingredients_cell = Some (u ''wheat flour''), other_cells = []\<rparr>"

definition bread_of_unknown :: csv_row where
  "bread_of_unknown =
     \<lparr>name_cell = Some (u ''Bread''), ingredients_cell = None, other_cells = []\<rparr>"



text \<open>Two rows for the examples: a token twice, and tokens that only resemble an entry.\<close>

definition wheat_twice :: row where
  "wheat_twice = \<lparr>name = u ''Msemen'', ingredients = u ''wheat  oil wheat'', extras = []\<rparr>"

definition wheat_free :: row where
  "wheat_free = \<lparr>name = u ''Galette'', ingredients = u ''wheat-free Wheat WHEAT wheat, buckwheat'',
     extras = []\<rparr>"


section \<open>A regular expression library for the examples\<close>

text \<open>
  The examples need \<open>re\<close> on concrete patterns.  \<open>re_sample\<close> is \<open>re\<close> with
  \<open>re.IGNORECASE\<close> on the patterns made of ordinary characters and of the wildcard \<open>.\<close>,
  which matches every character but the newline, with the case pairs of the ASCII and
  Latin-1 letters.  The examples give it no other pattern, where it raises.
\<close>

definition fold_latin1 :: "nat \<Rightarrow> nat" where
  "fold_latin1 c =
     (if (65 \<le> c \<and> c \<le> 90) \<or> (192 \<le> c \<and> c \<le> 214) \<or> (216 \<le> c \<and> c \<le> 222)
      then c + 32 else c)"

definition same_letter :: "nat \<Rightarrow> nat \<Rightarrow> bool" where
  "same_letter c x = (fold_latin1 c = fold_latin1 x)"

datatype atom = Lit nat | AnyChar

fun re_compile :: "ustr \<Rightarrow> atom list option" where
  "re_compile [] = Some []"
| "re_compile (c # cs) =
     (if c = 46 then map_option (Cons AnyChar) (re_compile cs)
      else if re_special c then None
      else map_option (Cons (Lit c)) (re_compile cs))"

fun atom_matches :: "atom \<Rightarrow> nat \<Rightarrow> bool" where
  "atom_matches (Lit c) x = same_letter c x"
| "atom_matches AnyChar x = (x \<noteq> 10)"

fun match_here :: "atom list \<Rightarrow> ustr \<Rightarrow> bool" where
  "match_here [] s = True"
| "match_here (a # as) [] = False"
| "match_here (a # as) (x # xs) = (atom_matches a x \<and> match_here as xs)"

fun re_search :: "atom list \<Rightarrow> ustr \<Rightarrow> bool" where
  "re_search p [] = match_here p []"
| "re_search p (x # xs) = (match_here p (x # xs) \<or> re_search p xs)"

definition re_sample :: regex where
  "re_sample query =
     (case re_compile query of
        None \<Rightarrow> Inl ReError
      | Some p \<Rightarrow> Inr (re_search p))"

section \<open>The specification's notions\<close>






text \<open>The rows that a compiled pattern keeps: the mask of a frame, row by row.\<close>

definition hit :: "(ustr \<Rightarrow> bool) \<Rightarrow> csv_row \<Rightarrow> bool" where
  "hit found item =
     logical_or (map_option found (name_cell item)) (map_option found (ingredients_cell item))"

text \<open>The suggestions as the specification words them, for a catalog and a name.\<close>

definition suggest :: "(ustr \<times> ustr list) list \<Rightarrow> ustr \<Rightarrow> ustr list" where
  "suggest catalog item_name' =
     concat (map snd (filter (\<lambda>(keyword, substitutes). sublist keyword (lower item_name')) catalog))"

text \<open>The lines of the report for one result, as the specification lists them.\<close>

definition bullet_line :: "ustr \<Rightarrow> ustr" where
  "bullet_line x = u ''    * '' @ x @ [10]"

definition status_label :: "GlutenAnalysisResult \<Rightarrow> ustr" where
  "status_label r = (if contains_gluten r then label_contains else label_free)"

definition item_line :: "GlutenAnalysisResult \<Rightarrow> ustr" where
  "item_line r = u ''- '' @ item_name r @ u '': '' @ status_label r @ [10]"

definition result_block :: "GlutenAnalysisResult \<Rightarrow> ustr" where
  "result_block r =
     item_line r
     @ (if gluten_sources r = [] then []
        else sources_header @ concat (map bullet_line (gluten_sources r)))
     @ (if alternative_suggestions r = [] then []
        else alternatives_header @ concat (map bullet_line (alternative_suggestions r)))"

section \<open>Auxiliary facts\<close>

lemmas engine_defs =
  retrieve_relevant_info_def matches_def getitem_name_def getitem_ingredients_def
  str_contains_def str_accessor_def object_column_def analyse_item_def as_row_def py_str_def
  analyse_def split_def isspace_def load_gluten_ingredients_def
  generate_alternatives_def alternatives_from_def moroccan_alternatives_def
  lower_def lower_cp_def re_special_def u_def

lemmas sample_defs =
  sample_system_def sample_recipes_def sample_products_def tagine_def couscous_def
  harira_def pastilla_def zaalouk_def sardines_def moroccan_bread_def rice_cookies_def

lemma mask_filter:
  "map fst (filter snd (zip xs (map (\<lambda>(a, b). h a b) (zip (map f xs) (map g xs)))))
     = filter (\<lambda>x. h (f x) (g x)) xs"
  by (induction xs) simp_all

lemma filter_count: "count_list (filter P xs) t = (if P t then count_list xs t else 0)"
  by (induction xs) auto

lemma startswith_prefix: "startswith s p = prefix p s"
  by (induction s p rule: startswith.induct) auto

lemma str_in_sublist: "str_in sub s = sublist sub s"
  by (induction s) (simp_all add: startswith_prefix sublist_Cons_right)

lemma as_row_csv: "as_row (csv_row_of r) = r"
  by (simp add: as_row_def csv_row_of_def py_str_def)

subsection \<open>Tokens\<close>

lemma split_from_sublist: "t \<in> set (split_from cur s) \<Longrightarrow> sublist t (cur @ s)"
proof (induction s arbitrary: cur)
  case Nil
  then show ?case by (simp split: if_splits)
next
  case (Cons c cs)
  show ?case
  proof (cases "isspace c")
    case True
    show ?thesis
    proof (cases "t \<in> set (split_from [] cs)")
      case True
      then have "sublist t cs" using Cons.IH [of "[]"] by simp
      then obtain ps ss where "cs = ps @ t @ ss" by (auto simp: sublist_def)
      then have "cur @ c # cs = (cur @ c # ps) @ t @ ss" by simp
      then show ?thesis unfolding sublist_def by blast
    next
      case False
      with Cons.prems \<open>isspace c\<close> have "t = cur" by (simp split: if_splits)
      then show ?thesis by simp
    qed
  next
    case False
    with Cons.prems have "t \<in> set (split_from (cur @ [c]) cs)" by simp
    then show ?thesis using Cons.IH [of "cur @ [c]"] by simp
  qed
qed

lemma split_from_nonspace:
  "t \<in> set (split_from cur s) \<Longrightarrow> \<forall>c\<in>set cur. \<not> isspace c
     \<Longrightarrow> t \<noteq> [] \<and> (\<forall>c\<in>set t. \<not> isspace c)"
proof (induction s arbitrary: cur)
  case Nil
  then show ?case by (simp split: if_splits)
next
  case (Cons c cs)
  show ?case
  proof (cases "isspace c")
    case True
    show ?thesis
    proof (cases "t \<in> set (split_from [] cs)")
      case True
      then show ?thesis using Cons.IH [of "[]"] by simp
    next
      case False
      with Cons.prems(1) \<open>isspace c\<close> have "t = cur" "cur \<noteq> []"
        by (simp_all split: if_splits)
      then show ?thesis using Cons.prems(2) by simp
    qed
  next
    case False
    with Cons.prems(1) have "t \<in> set (split_from (cur @ [c]) cs)" by simp
    moreover have "\<forall>x\<in>set (cur @ [c]). \<not> isspace x" using False Cons.prems(2) by simp
    ultimately show ?thesis using Cons.IH [of "cur @ [c]"] by blast
  qed
qed

lemma split_token:
  assumes "t \<in> set (split s)"
  shows "t \<noteq> [] \<and> sublist t s \<and> (\<forall>c\<in>set t. \<not> isspace c)"
  using split_from_sublist [of t "[]" s] split_from_nonspace [of t "[]" s] assms
  by (simp add: split_def)

subsection \<open>Case-insensitive substrings, computed\<close>




subsection \<open>The library of the examples on ordinary characters\<close>





subsection \<open>What a retrieval that returns has done\<close>

lemma hit_fun:
  "(\<lambda>x. logical_or (map_option found (name_cell x)) (map_option found (ingredients_cell x)))
     = hit found"
  by (simp add: fun_eq_iff hit_def)

lemma hit_has_name: "hit found item \<Longrightarrow> \<exists>n. name_cell item = Some n"
  by (cases "name_cell item") (simp_all add: hit_def)



lemma matches_compiled:
  assumes "u ''name'' \<in> set (columns df)" and "u ''ingredients'' \<in> set (columns df)"
    and "object_column (map name_cell (rows df))"
    and "object_column (map ingredients_cell (rows df))"
    and "re query = Inr found"
  shows "matches re df query = Returns (filter (hit found) (rows df))"
  using assms
  by (simp add: matches_def getitem_name_def getitem_ingredients_def str_contains_def
        str_accessor_def mask_filter hit_fun)

lemma collect_returns:
  "collect self acc ms = Returns results
     \<Longrightarrow> results = acc @ map (\<lambda>item. analyse self (as_row item)) ms"
proof (induction ms arbitrary: acc)
  case Nil
  then show ?case by simp
next
  case (Cons item items)
  show ?case
  proof (cases "name_cell item")
    case None
    with Cons.prems show ?thesis by (simp add: analyse_item_def)
  next
    case (Some n)
    with Cons.prems have "collect self (acc @ [analyse self (as_row item)]) items = Returns results"
      by (simp add: analyse_item_def)
    from Cons.IH [OF this] show ?thesis by simp
  qed
qed

lemma collect_named:
  "\<forall>item\<in>set ms. \<exists>n. name_cell item = Some n
     \<Longrightarrow> collect self acc ms = Returns (acc @ map (\<lambda>item. analyse self (as_row item)) ms)"
proof (induction ms arbitrary: acc)
  case Nil
  then show ?case by simp
next
  case (Cons item items)
  from Cons.prems obtain n where "name_cell item = Some n" by auto
  moreover from Cons.prems have "\<forall>i\<in>set items. \<exists>n. name_cell i = Some n" by simp
  ultimately show ?case using Cons.IH by (simp add: analyse_item_def)
qed

lemma retrieve_returns:
  assumes "retrieve_relevant_info re self query = Returns results"
  shows "\<exists>rm pm. matches re (data_sources self RECIPE_DATABASE) query = Returns rm
            \<and> matches re (data_sources self PRODUCT_CATALOG) query = Returns pm
            \<and> results = map (\<lambda>item. analyse self (as_row item)) rm
                        @ map (\<lambda>item. analyse self (as_row item)) pm"
proof (cases "matches re (data_sources self RECIPE_DATABASE) query")
  case (Raises e)
  with assms show ?thesis by (simp add: retrieve_relevant_info_def)
next
  case (Returns rm)
  note recipes = this
  show ?thesis
  proof (cases "matches re (data_sources self PRODUCT_CATALOG) query")
    case (Raises e)
    with recipes assms show ?thesis by (simp add: retrieve_relevant_info_def)
  next
    case (Returns pm)
    note products = this
    show ?thesis
    proof (cases "collect self [] rm")
      case (Raises e)
      with recipes products assms show ?thesis by (simp add: retrieve_relevant_info_def)
    next
      case (Returns first)
      with recipes products assms have "collect self first pm = Returns results"
        by (simp add: retrieve_relevant_info_def)
      from collect_returns [OF this] collect_returns [OF Returns]
      have "results = map (\<lambda>item. analyse self (as_row item)) rm
                        @ map (\<lambda>item. analyse self (as_row item)) pm" by simp
      with recipes products show ?thesis by blast
    qed
  qed
qed

lemma retrieve_compiled:
  assumes "u ''name'' \<in> set (columns (data_sources self RECIPE_DATABASE))"
    and "u ''ingredients'' \<in> set (columns (data_sources self RECIPE_DATABASE))"
    and "u ''name'' \<in> set (columns (data_sources self PRODUCT_CATALOG))"
    and "u ''ingredients'' \<in> set (columns (data_sources self PRODUCT_CATALOG))"
    and "object_column (map name_cell (rows (data_sources self RECIPE_DATABASE)))"
    and "object_column (map ingredients_cell (rows (data_sources self RECIPE_DATABASE)))"
    and "object_column (map name_cell (rows (data_sources self PRODUCT_CATALOG)))"
    and "object_column (map ingredients_cell (rows (data_sources self PRODUCT_CATALOG)))"
    and "re query = Inr found"
  shows "retrieve_relevant_info re self query =
           Returns (map (\<lambda>item. analyse self (as_row item))
             (filter (hit found)
                (rows (data_sources self RECIPE_DATABASE)
                 @ rows (data_sources self PRODUCT_CATALOG))))"
proof -
  have r: "matches re (data_sources self RECIPE_DATABASE) query
             = Returns (filter (hit found) (rows (data_sources self RECIPE_DATABASE)))"
    using assms(1,2,5,6,9) by (rule matches_compiled)
  have p: "matches re (data_sources self PRODUCT_CATALOG) query
             = Returns (filter (hit found) (rows (data_sources self PRODUCT_CATALOG)))"
    using assms(3,4,7,8,9) by (rule matches_compiled)
  have nr: "\<forall>item\<in>set (filter (hit found) (rows (data_sources self RECIPE_DATABASE))).
              \<exists>n. name_cell item = Some n"
    by (auto dest: hit_has_name)
  have np: "\<forall>item\<in>set (filter (hit found) (rows (data_sources self PRODUCT_CATALOG))).
              \<exists>n. name_cell item = Some n"
    by (auto dest: hit_has_name)
  show ?thesis
    by (simp add: retrieve_relevant_info_def r p collect_named [OF nr] collect_named [OF np])
qed

lemma analyse_contains:
  "contains_gluten (analyse self item) = (gluten_sources (analyse self item) \<noteq> [])"
  by (simp add: analyse_def Let_def list_ex_iff filter_empty_conv)

lemma sample_tables:
  "u ''name'' \<in> set (columns (data_sources sample_system RECIPE_DATABASE))"
  "u ''ingredients'' \<in> set (columns (data_sources sample_system RECIPE_DATABASE))"
  "u ''name'' \<in> set (columns (data_sources sample_system PRODUCT_CATALOG))"
  "u ''ingredients'' \<in> set (columns (data_sources sample_system PRODUCT_CATALOG))"
  "object_column (map name_cell (rows (data_sources sample_system RECIPE_DATABASE)))"
  "object_column (map ingredients_cell (rows (data_sources sample_system RECIPE_DATABASE)))"
  "object_column (map name_cell (rows (data_sources sample_system PRODUCT_CATALOG)))"
  "object_column (map ingredients_cell (rows (data_sources sample_system PRODUCT_CATALOG)))"
  by (simp_all add: sample_system_def sample_recipes_def sample_products_def object_column_def
        csv_row_of_def)

lemma sample_rows:
  "rows (data_sources sample_system RECIPE_DATABASE) @ rows (data_sources sample_system PRODUCT_CATALOG)
     = map csv_row_of
         [tagine, couscous, harira, pastilla, zaalouk, sardines, moroccan_bread, rice_cookies]"
  by (simp add: sample_system_def sample_recipes_def sample_products_def)

lemma couscous_query:
  "retrieve_relevant_info re_sample sample_system (u ''couscous'')
     = Returns [analyse sample_system couscous]"
proof -
  have c: "re_sample (u ''couscous'') = Inr (re_search (map Lit (u ''couscous'')))"
    by (simp add: re_sample_def re_special_def u_def)
  have "filter (hit (re_search (map Lit (u ''couscous''))))
          (map csv_row_of
            [tagine, couscous, harira, pastilla, zaalouk, sardines, moroccan_bread, rice_cookies])
        = [csv_row_of couscous]"
    by (simp add: hit_def csv_row_of_def same_letter_def fold_latin1_def u_def tagine_def
          couscous_def harira_def pastilla_def zaalouk_def sardines_def moroccan_bread_def
          rice_cookies_def)
  with retrieve_compiled [where re = re_sample and query = "u ''couscous''"
      and found = "re_search (map Lit (u ''couscous''))", OF sample_tables c]
  show ?thesis
    by (simp add: sample_rows as_row_csv)
qed

lemma couscous_sources:
  "gluten_sources (analyse sample_system couscous) = [u ''wheat'', u ''semolina'']"
  by (simp add: engine_defs sample_defs)


section \<open>Classification\<close>

text \<open>
  C1.  Every result that a retrieval returns has \<open>contains_gluten\<close> true if and only if
  its \<open>gluten_sources\<close> is not empty.
\<close>

theorem contains_gluten_iff_sources:
  assumes "retrieve_relevant_info re self query = Returns results" and "r \<in> set results"
  shows "contains_gluten r \<longleftrightarrow> gluten_sources r \<noteq> []"
proof -
  from retrieve_returns [OF assms(1)] obtain rm pm
    where "results = map (\<lambda>item. analyse self (as_row item)) rm
                     @ map (\<lambda>item. analyse self (as_row item)) pm" by blast
  with assms(2) obtain item where "r = analyse self item" by auto
  then show ?thesis by (simp add: analyse_contains)
qed

theorem contains_gluten_iff_sources_witness:
  "retrieve_relevant_info re_sample sample_system (u ''couscous'')
     = Returns [analyse sample_system couscous]
   \<and> analyse sample_system couscous \<in> set [analyse sample_system couscous]
   \<and> (contains_gluten (analyse sample_system couscous)
        \<longleftrightarrow> gluten_sources (analyse sample_system couscous) \<noteq> [])
   \<and> gluten_sources (analyse sample_system couscous) = [u ''wheat'', u ''semolina'']"
proof -
  have m: "analyse sample_system couscous \<in> set [analyse sample_system couscous]" by simp
  from contains_gluten_iff_sources [OF couscous_query m] couscous_query m couscous_sources
  show ?thesis by blast
qed

text \<open>
  C2.  The gluten sources of a row are tokens of its ingredient text and members of the
  lexicon, in the order of the text and as many times as the text has them; and a token
  is a non-empty run of the text, taken as it is, without white space.
\<close>

theorem gluten_sources_are_tokens:
  "(\<forall>t\<in>set (gluten_sources (analyse self item)).
       t \<in> set (split (ingredients item)) \<and> t \<in> gluten_ingredients self)
   \<and> subseq (gluten_sources (analyse self item)) (split (ingredients item))
   \<and> (\<forall>t. count_list (gluten_sources (analyse self item)) t
            = (if t \<in> gluten_ingredients self then count_list (split (ingredients item)) t else 0))
   \<and> (\<forall>t\<in>set (split (ingredients item)).
          t \<noteq> [] \<and> sublist t (ingredients item) \<and> (\<forall>c\<in>set t. \<not> isspace c))"
proof -
  have s: "gluten_sources (analyse self item)
             = filter (\<lambda>t. t \<in> gluten_ingredients self) (split (ingredients item))"
    by (simp add: analyse_def)
  have "\<forall>t\<in>set (gluten_sources (analyse self item)).
          t \<in> set (split (ingredients item)) \<and> t \<in> gluten_ingredients self"
    by (simp add: s)
  moreover have "subseq (gluten_sources (analyse self item)) (split (ingredients item))"
    by (simp add: s)
  moreover have "\<forall>t. count_list (gluten_sources (analyse self item)) t
            = (if t \<in> gluten_ingredients self then count_list (split (ingredients item)) t else 0)"
    by (simp add: s filter_count)
  moreover have "\<forall>t\<in>set (split (ingredients item)).
          t \<noteq> [] \<and> sublist t (ingredients item) \<and> (\<forall>c\<in>set t. \<not> isspace c)"
    using split_token by simp
  ultimately show ?thesis by blast
qed

lemma wheat_twice_sources:
  "gluten_sources (analyse sample_system wheat_twice) = [u ''wheat'', u ''wheat'']"
  by (simp add: engine_defs sample_defs wheat_twice_def)

lemma wheat_twice_tokens:
  "split (ingredients wheat_twice) = [u ''wheat'', u ''oil'', u ''wheat'']"
  by (simp add: engine_defs wheat_twice_def)

theorem gluten_sources_are_tokens_witness:
  "gluten_sources (analyse sample_system wheat_twice) = [u ''wheat'', u ''wheat'']
   \<and> split (ingredients wheat_twice) = [u ''wheat'', u ''oil'', u ''wheat'']
   \<and> u ''wheat'' \<in> set (split (ingredients wheat_twice))
   \<and> u ''wheat'' \<in> gluten_ingredients sample_system
   \<and> subseq [u ''wheat'', u ''wheat''] [u ''wheat'', u ''oil'', u ''wheat'']
   \<and> count_list (gluten_sources (analyse sample_system wheat_twice)) (u ''wheat'') = 2
   \<and> sublist (u ''oil'') (ingredients wheat_twice)"
proof -
  note t = gluten_sources_are_tokens [of sample_system wheat_twice]
  have a: "u ''wheat'' \<in> set (gluten_sources (analyse sample_system wheat_twice))"
    by (simp add: wheat_twice_sources)
  have b: "u ''oil'' \<in> set (split (ingredients wheat_twice))"
    by (simp add: wheat_twice_tokens)
  from t a have 1: "u ''wheat'' \<in> set (split (ingredients wheat_twice))
      \<and> u ''wheat'' \<in> gluten_ingredients sample_system" by blast
  from t have 2: "subseq (gluten_sources (analyse sample_system wheat_twice)) (split (ingredients wheat_twice))"
    by blast
  from t have "count_list (gluten_sources (analyse sample_system wheat_twice)) (u ''wheat'')
      = (if u ''wheat'' \<in> gluten_ingredients sample_system
         then count_list (split (ingredients wheat_twice)) (u ''wheat'') else 0)" by blast
  with 1 have 3: "count_list (gluten_sources (analyse sample_system wheat_twice)) (u ''wheat'') = 2"
    by (simp add: wheat_twice_tokens u_def)
  from t b have 4: "sublist (u ''oil'') (ingredients wheat_twice)" by blast
  from 1 2 3 4 show ?thesis by (simp add: wheat_twice_sources wheat_twice_tokens)
qed

text \<open>
  C3.  With the lexicon of the source, a token of the ingredient text is a gluten source
  exactly when it is equal, code point for code point, to one of the nine entries; so
  \<open>wheat-free\<close>, \<open>Wheat\<close>, \<open>WHEAT\<close>, \<open>wheat,\<close> and \<open>buckwheat\<close> are no gluten source.
\<close>

theorem whole_token_equality:
  assumes "gluten_ingredients self = load_gluten_ingredients"
  shows "(t \<in> set (gluten_sources (analyse self item)) \<longleftrightarrow>
            t \<in> set (split (ingredients item)) \<and>
            (t = u ''wheat'' \<or> t = u ''barley'' \<or> t = u ''rye'' \<or> t = u ''couscous''
             \<or> t = u ''semolina'' \<or> t = u ''bulgur'' \<or> t = [1601, 1585, 1610, 1603, 1577]
             \<or> t = [1602, 1605, 1581] \<or> t = [1588, 1593, 1610, 1585]))
       \<and> (ingredients item = u ''wheat-free Wheat WHEAT wheat, buckwheat'' \<longrightarrow>
            gluten_sources (analyse self item) = [] \<and> \<not> contains_gluten (analyse self item))"
proof -
  have "t \<in> set (gluten_sources (analyse self item)) \<longleftrightarrow>
            t \<in> set (split (ingredients item)) \<and>
            (t = u ''wheat'' \<or> t = u ''barley'' \<or> t = u ''rye'' \<or> t = u ''couscous''
             \<or> t = u ''semolina'' \<or> t = u ''bulgur'' \<or> t = [1601, 1585, 1610, 1603, 1577]
             \<or> t = [1602, 1605, 1581] \<or> t = [1588, 1593, 1610, 1585])"
    using assms by (auto simp: analyse_def load_gluten_ingredients_def)
  moreover have "ingredients item = u ''wheat-free Wheat WHEAT wheat, buckwheat'' \<longrightarrow>
            gluten_sources (analyse self item) = [] \<and> \<not> contains_gluten (analyse self item)"
  proof
    assume i: "ingredients item = u ''wheat-free Wheat WHEAT wheat, buckwheat''"
    have "gluten_sources (analyse self item) = []"
      using assms i by (simp add: engine_defs)
    then show "gluten_sources (analyse self item) = [] \<and> \<not> contains_gluten (analyse self item)"
      by (simp add: analyse_contains)
  qed
  ultimately show ?thesis by blast
qed

theorem whole_token_equality_witness:
  "gluten_ingredients sample_system = load_gluten_ingredients
   \<and> ingredients wheat_free = u ''wheat-free Wheat WHEAT wheat, buckwheat''
   \<and> u ''wheat-free'' \<in> set (split (ingredients wheat_free))
   \<and> u ''wheat-free'' \<notin> set (gluten_sources (analyse sample_system wheat_free))
   \<and> gluten_sources (analyse sample_system wheat_free) = []
   \<and> \<not> contains_gluten (analyse sample_system wheat_free)"
proof -
  have g: "gluten_ingredients sample_system = load_gluten_ingredients"
    by (simp add: sample_system_def)
  have i: "ingredients wheat_free = u ''wheat-free Wheat WHEAT wheat, buckwheat''"
    by (simp add: wheat_free_def)
  have k: "u ''wheat-free'' \<in> set (split (ingredients wheat_free))"
    by (simp add: wheat_free_def split_def isspace_def u_def)
  from whole_token_equality [OF g, of "u ''wheat-free''" wheat_free] i
  have "u ''wheat-free'' \<notin> set (gluten_sources (analyse sample_system wheat_free))"
    and "gluten_sources (analyse sample_system wheat_free) = []"
    and "\<not> contains_gluten (analyse sample_system wheat_free)"
    by (simp_all add: u_def)
  with g i k show ?thesis by blast
qed

section \<open>Search\<close>

lemmas sample_row_defs =
  csv_row_of_def tagine_def couscous_def harira_def pastilla_def zaalouk_def sardines_def
  moroccan_bread_def rice_cookies_def nameless_def bread_of_unknown_def
















section \<open>Alternatives\<close>

lemma alternatives_from_acc:
  "foldl (\<lambda>alternatives (item, subs).
            if str_in item n then alternatives @ subs else alternatives) acc catalog
     = acc @ concat (map snd (filter (\<lambda>(keyword, substitutes). sublist keyword n) catalog))"
  by (induction catalog arbitrary: acc) (auto simp: str_in_sublist)

text \<open>
  C6.  The alternatives for a name are the substitutes of every catalog entry whose keyword
  is a substring of the lower-cased name, in the order of the catalog and without
  deduplication; \<open>Couscous\<close> gives quinoa, rice and corn couscous.
\<close>

theorem alternatives_by_keyword:
  "generate_alternatives item_name' = suggest moroccan_alternatives item_name'
   \<and> alternatives_from catalog item_name' = suggest catalog item_name'
   \<and> generate_alternatives (u ''Couscous'') = [u ''quinoa'', u ''rice'', u ''corn couscous'']
   \<and> generate_alternatives (u ''Couscous Bread'')
        = [u ''quinoa'', u ''rice'', u ''corn couscous'', u ''corn bread'', u ''rice bread'']"
proof -
  have g: "alternatives_from c n = suggest c n" for c n
    by (simp add: alternatives_from_def suggest_def alternatives_from_acc)
  have "generate_alternatives (u ''Couscous'') = [u ''quinoa'', u ''rice'', u ''corn couscous'']"
    by (simp add: generate_alternatives_def alternatives_from_def moroccan_alternatives_def
          lower_def lower_cp_def u_def)
  moreover have "generate_alternatives (u ''Couscous Bread'')
        = [u ''quinoa'', u ''rice'', u ''corn couscous'', u ''corn bread'', u ''rice bread'']"
    by (simp add: generate_alternatives_def alternatives_from_def moroccan_alternatives_def
          lower_def lower_cp_def u_def)
  ultimately show ?thesis by (simp add: generate_alternatives_def g)
qed

theorem alternatives_by_keyword_witness:
  "generate_alternatives (u ''Tagine'') = suggest moroccan_alternatives (u ''Tagine'')
   \<and> suggest moroccan_alternatives (u ''Tagine'') = []"
proof -
  have "suggest moroccan_alternatives (u ''Tagine'') = []"
    by (simp add: suggest_def moroccan_alternatives_def lower_def lower_cp_def u_def sublist_code)
  with alternatives_by_keyword [of "u ''Tagine''" "[]"] show ?thesis by simp
qed

section \<open>Response\<close>

lemma add_bullets_concat: "add_bullets acc xs = acc @ concat (map bullet_line xs)"
  unfolding add_bullets_def
  by (induction xs arbitrary: acc) (simp_all add: bullet_line_def)

lemma add_result_block: "add_result acc r = acc @ result_block r"
  by (simp add: add_result_def result_block_def item_line_def status_label_def Let_def
        add_bullets_concat)

lemma foldl_add_result: "foldl add_result acc rs = acc @ concat (map result_block rs)"
  by (induction rs arbitrary: acc) (simp_all add: add_result_block)

text \<open>
  C7.  For no result the response is the fixed no-information text.  Otherwise it is the
  header, one line, followed for each result in order by its block: the line of the name
  and of the status label, which is one of two distinct labels, then the header and the
  bullets of the gluten sources when there are some, then the header and the bullets of
  the alternatives when there are some.
\<close>

theorem response_layout:
  "generate_response [] query_language = no_information
   \<and> (retrieved_info \<noteq> [] \<longrightarrow>
        generate_response retrieved_info query_language
          = results_header @ concat (map result_block retrieved_info))
   \<and> count_list results_header 10 = 1 \<and> last results_header = 10
   \<and> (status_label r = label_contains \<or> status_label r = label_free)
   \<and> label_contains \<noteq> label_free"
proof -
  have "generate_response [] query_language = no_information"
    by (simp add: generate_response_def)
  moreover have "retrieved_info \<noteq> [] \<longrightarrow>
        generate_response retrieved_info query_language
          = results_header @ concat (map result_block retrieved_info)"
    by (simp add: generate_response_def foldl_add_result)
  moreover have "count_list results_header 10 = 1" "last results_header = 10"
    by (simp_all add: results_header_def)
  moreover have "status_label r = label_contains \<or> status_label r = label_free"
    by (simp add: status_label_def)
  moreover have "label_contains \<noteq> label_free"
    by (simp add: label_contains_def label_free_def)
  ultimately show ?thesis by blast
qed

lemma couscous_result:
  "analyse sample_system couscous =
     \<lparr>item_name = u ''Couscous'', contains_gluten = True,
      gluten_sources = [u ''wheat'', u ''semolina''],
      alternative_suggestions = [u ''quinoa'', u ''rice'', u ''corn couscous''],
      confidence_score = 0.8, nutritional_details = []\<rparr>"
  by (simp add: engine_defs sample_defs)

lemma tagine_result:
  "analyse sample_system tagine =
     \<lparr>item_name = u ''Tagine'', contains_gluten = False, gluten_sources = [],
      alternative_suggestions = [], confidence_score = 0.8, nutritional_details = []\<rparr>"
  by (simp add: engine_defs sample_defs)

theorem response_layout_witness:
  "[analyse sample_system tagine, analyse sample_system couscous] \<noteq> []
   \<and> generate_response [analyse sample_system tagine, analyse sample_system couscous] (u ''darija'')
      = results_header
        @ u ''- Tagine: '' @ label_free @ [10]
        @ u ''- Couscous: '' @ label_contains @ [10]
        @ sources_header @ u ''    * wheat'' @ [10] @ u ''    * semolina'' @ [10]
        @ alternatives_header @ u ''    * quinoa'' @ [10] @ u ''    * rice'' @ [10]
        @ u ''    * corn couscous'' @ [10]"
proof -
  have n: "[analyse sample_system tagine, analyse sample_system couscous] \<noteq> []" by simp
  from response_layout [of "u ''darija''"
      "[analyse sample_system tagine, analyse sample_system couscous]" "analyse sample_system tagine"] n
  have "generate_response [analyse sample_system tagine, analyse sample_system couscous] (u ''darija'')
      = results_header @ concat (map result_block
          [analyse sample_system tagine, analyse sample_system couscous])"
    by blast
  then show ?thesis
    by (simp add: couscous_result tagine_result result_block_def item_line_def status_label_def
          bullet_line_def u_def)
qed

section \<open>Loading\<close>

text \<open>A read that raises gives the empty frame: no loader raises.\<close>

lemma load_table_soft:
  "read_csv path = Inl e \<Longrightarrow> map_of cfg key = Some path \<Longrightarrow> load_table read_csv cfg key = DataFrame"
  by (simp add: load_table_def)

lemma bread_rows:
  "filter (hit (re_search (map Lit (u ''bread''))))
     (map csv_row_of
        [tagine, couscous, harira, pastilla, zaalouk, sardines, moroccan_bread, rice_cookies])
     = [csv_row_of moroccan_bread]"
  by (simp add: hit_def sample_row_defs same_letter_def fold_latin1_def u_def)

text \<open>
  C8.  A failed load is replaced by the empty frame and is not raised, but it does prevent
  querying the other tables: with an empty recipes file the system is built, its recipe
  table is \<open>pd.DataFrame()\<close>, its product table is the sample one, and the query
  \<open>bread\<close> raises \<open>KeyError\<close> for the column \<open>name\<close>, whatever the library of regular
  expressions does; with the sample files the same query returns the product Moroccan
  Bread.
\<close>

theorem empty_recipes_file_breaks_search:
  "(case RAGSystem_init (Inr sample_config) files_with_empty_recipes of
      Inl e \<Rightarrow> False
    | Inr self \<Rightarrow>
        data_sources self RECIPE_DATABASE = DataFrame
      \<and> data_sources self PRODUCT_CATALOG = sample_products
      \<and> retrieve_relevant_info re self (u ''bread'') = Raises (KeyError (u ''name'')))
   \<and> (case RAGSystem_init (Inr sample_config) sample_files of
      Inl e \<Rightarrow> False
    | Inr self \<Rightarrow>
        retrieve_relevant_info re_sample self (u ''bread'') = Returns [analyse self moroccan_bread])"
proof -
  have r: "load_recipe_database files_with_empty_recipes sample_config = DataFrame"
    by (simp add: load_recipe_database_def load_table_def files_with_empty_recipes_def
          sample_config_def u_def)
  have p: "load_product_catalog files_with_empty_recipes sample_config = sample_products"
    by (simp add: load_product_catalog_def load_table_def files_with_empty_recipes_def
          sample_files_def sample_config_def u_def)
  have r': "load_recipe_database sample_files sample_config = sample_recipes"
    by (simp add: load_recipe_database_def load_table_def sample_files_def sample_config_def u_def)
  have p': "load_product_catalog sample_files sample_config = sample_products"
    by (simp add: load_product_catalog_def load_table_def sample_files_def sample_config_def u_def)
  have n': "load_nutritional_database sample_files sample_config = nutritional_ref"
    by (simp add: load_nutritional_database_def load_table_def sample_files_def sample_config_def
          u_def)
  have 1: "(case RAGSystem_init (Inr sample_config) files_with_empty_recipes of
      Inl e \<Rightarrow> False
    | Inr self \<Rightarrow>
        data_sources self RECIPE_DATABASE = DataFrame
      \<and> data_sources self PRODUCT_CATALOG = sample_products
      \<and> retrieve_relevant_info re self (u ''bread'') = Raises (KeyError (u ''name'')))"
    by (simp add: RAGSystem_init_def r p retrieve_relevant_info_def matches_def getitem_name_def
          DataFrame_def)
  have s: "RAGSystem_init (Inr sample_config) sample_files = Inr sample_system"
    by (simp add: RAGSystem_init_def r' p' n' sample_system_def fun_eq_iff
          split: DataSource.splits)
  have c: "re_sample (u ''bread'') = Inr (re_search (map Lit (u ''bread'')))"
    by (simp add: re_sample_def re_special_def u_def)
  from retrieve_compiled [where re = re_sample and query = "u ''bread''"
      and found = "re_search (map Lit (u ''bread''))", OF sample_tables c]
  have "retrieve_relevant_info re_sample sample_system (u ''bread'')
          = Returns [analyse sample_system moroccan_bread]"
    unfolding sample_rows bread_rows by (simp add: as_row_csv)
  with s have 2: "(case RAGSystem_init (Inr sample_config) sample_files of
      Inl e \<Rightarrow> False
    | Inr self \<Rightarrow>
        retrieve_relevant_info re_sample self (u ''bread'') = Returns [analyse self moroccan_bread])"
    by simp
  from 1 2 show ?thesis by blast
qed

section \<open>What the results do not depend on\<close>

text \<open>
  C9.  Two rows with the same name and the same ingredients have the same
  \<open>contains_gluten\<close> and the same \<open>gluten_sources\<close>, whatever their other cells (the
  brand, the declared gluten flag) are.
\<close>

theorem declared_flag_not_consulted:
  assumes "name r1 = name r2" and "ingredients r1 = ingredients r2"
  shows "contains_gluten (analyse self r1) = contains_gluten (analyse self r2)
       \<and> gluten_sources (analyse self r1) = gluten_sources (analyse self r2)
       \<and> analyse self r1 = analyse self r2"
  using assms by (simp add: analyse_def)

theorem declared_flag_not_consulted_witness:
  "name couscous = name (couscous\<lparr>extras := [(u ''gluten_status'', CBool False)]\<rparr>)
   \<and> ingredients couscous = ingredients (couscous\<lparr>extras := [(u ''gluten_status'', CBool False)]\<rparr>)
   \<and> extras couscous \<noteq> extras (couscous\<lparr>extras := [(u ''gluten_status'', CBool False)]\<rparr>)
   \<and> contains_gluten (analyse sample_system (couscous\<lparr>extras := [(u ''gluten_status'', CBool False)]\<rparr>))
   \<and> gluten_sources (analyse sample_system (couscous\<lparr>extras := [(u ''gluten_status'', CBool False)]\<rparr>))
       = [u ''wheat'', u ''semolina'']"
proof -
  have a: "name couscous = name (couscous\<lparr>extras := [(u ''gluten_status'', CBool False)]\<rparr>)"
    and b: "ingredients couscous = ingredients (couscous\<lparr>extras := [(u ''gluten_status'', CBool False)]\<rparr>)"
    by simp_all
  have c: "extras couscous \<noteq> extras (couscous\<lparr>extras := [(u ''gluten_status'', CBool False)]\<rparr>)"
    by (simp add: couscous_def)
  from declared_flag_not_consulted [OF a b, of sample_system] a b c show ?thesis
    by (simp add: couscous_result)
qed

text \<open>
  C10.  The response is the same for any two values of \<open>query_language\<close>.
\<close>

theorem response_ignores_language:
  "generate_response retrieved_info language1 = generate_response retrieved_info language2"
  by (simp add: generate_response_def)

theorem response_ignores_language_witness:
  "generate_response [analyse sample_system tagine] (u ''darija'')
     = generate_response [analyse sample_system tagine] (u ''fr'')"
  using response_ignores_language [of "[analyse sample_system tagine]" "u ''darija''" "u ''fr''"]
  by simp

end
